theory Spec2Isabelle
  imports Main "HOL-Library.Word"
begin

section \<open>The GPIO LCD driver (lcd-mod.c) over a model of its host\<close>

text \<open>
  The driver is a sequence of calls into the kernel: the GPIO library, the character
  device and class registries, one spinlock and the busy-wait delays. The kernel is a
  record; every call of the driver into it appends to \<open>trace\<close>, in program order,
  and updates the part of the record it concerns. Driver functions are state
  transformers over that record and return what the C function returns.
\<close>

subsection \<open>Host state\<close>

type_synonym uint8 = "8 word"
type_synonym ptr = "32 word"

datatype call =
    Printk string
  | RegisterChrdev int string
  | UnregisterChrdev int string
  | ClassCreate string
  | ClassDestroy ptr
  | DeviceCreate ptr "32 word" string
  | DeviceDestroy ptr "32 word"
  | GpioRequest nat string
  | GpioFree nat
  | GpioDirectionOutput nat int
  | GpioSetValue nat int
  | SpinLock
  | SpinUnlock
  | SpinLockInit
  | Mdelay nat
  | Udelay nat

text \<open>\<open>struct lcd_data\<close>; its \<open>lock\<close> member is the pair \<open>lock_init\<close>, \<open>lock_held\<close>
  of the kernel record.\<close>

record lcd_data =
  lcd_mjr :: int
  lcd_class :: ptr

text \<open>
  \<open>gpio_label\<close> maps a requested line to the label of its holder, \<open>gpio_output\<close> and
  \<open>gpio_level\<close> are direction and level of each line. \<open>chrdevs\<close> maps a registered
  major to its name, \<open>classes\<close> a live class to its \<open>devnode\<close> callback (if one is
  installed), \<open>devnodes\<close> a device number to the name and mode of its node under /dev.
  The three \<open>_answer\<close> fields are what the host returns from \<open>register_chrdev\<close>,
  \<open>class_create\<close> and \<open>device_create\<close>: the driver does not decide them.
\<close>

record kernel =
  trace :: "call list"
  gpio_label :: "nat \<rightharpoonup> string"
  gpio_output :: "nat \<Rightarrow> bool"
  gpio_level :: "nat \<Rightarrow> bool"
  chrdevs :: "int \<rightharpoonup> string"
  classes :: "ptr \<rightharpoonup> (nat option \<Rightarrow> nat option \<times> string option) option"
  devnodes :: "32 word \<rightharpoonup> string \<times> nat"
  lock_init :: bool
  lock_held :: bool
  lcd :: lcd_data
  chrdev_answer :: int
  class_answer :: ptr
  device_answer :: ptr

definition emit :: "call \<Rightarrow> kernel \<Rightarrow> kernel" where
  "emit c s = s\<lparr>trace := trace s @ [c]\<rparr>"

text \<open>Statements in sequence; \<open>discard\<close> is a call whose result the caller ignores.\<close>

definition run :: "('s \<Rightarrow> 's) list \<Rightarrow> 's \<Rightarrow> 's" where
  "run fs s = fold (\<lambda>f. f) fs s"

definition discard :: "('s \<Rightarrow> 'r \<times> 's) \<Rightarrow> 's \<Rightarrow> 's" where
  "discard f s = snd (f s)"

subsection \<open>Host calls\<close>

definition EINVAL :: int where "EINVAL = 22"
definition EBUSY :: int where "EBUSY = 16"
definition MAX_ERRNO :: int where "MAX_ERRNO = 4095"

definition IS_ERR :: "ptr \<Rightarrow> bool" where
  "IS_ERR p = (p \<ge> word_of_int (- MAX_ERRNO))"

definition PTR_ERR :: "ptr \<Rightarrow> int" where
  "PTR_ERR p = sint p"

definition MKDEV :: "int \<Rightarrow> int \<Rightarrow> 32 word" where
  "MKDEV ma mi = or (push_bit 20 (word_of_int ma)) (word_of_int mi)"

definition printk :: "string \<Rightarrow> kernel \<Rightarrow> kernel" where
  "printk msg s = emit (Printk msg) s"

text \<open>\<open>gpio_request\<close>: a line that already has a holder is refused with \<open>-EBUSY\<close>.\<close>

definition gpio_request :: "nat \<Rightarrow> string \<Rightarrow> kernel \<Rightarrow> int \<times> kernel" where
  "gpio_request n lbl s =
     (let s1 = emit (GpioRequest n lbl) s
      in if gpio_label s1 n \<noteq> None then (- EBUSY, s1)
         else (0, s1\<lparr>gpio_label := (gpio_label s1)(n \<mapsto> lbl)\<rparr>))"

definition gpio_free :: "nat \<Rightarrow> kernel \<Rightarrow> kernel" where
  "gpio_free n s = (emit (GpioFree n) s)\<lparr>gpio_label := (gpio_label s)(n := None)\<rparr>"

definition gpio_direction_output :: "nat \<Rightarrow> int \<Rightarrow> kernel \<Rightarrow> kernel" where
  "gpio_direction_output n v s =
     (emit (GpioDirectionOutput n v) s)
       \<lparr>gpio_output := (gpio_output s)(n := True),
        gpio_level := (gpio_level s)(n := (v \<noteq> 0))\<rparr>"

definition gpio_set_value :: "nat \<Rightarrow> int \<Rightarrow> kernel \<Rightarrow> kernel" where
  "gpio_set_value n v s =
     (emit (GpioSetValue n v) s)\<lparr>gpio_level := (gpio_level s)(n := (v \<noteq> 0))\<rparr>"

definition udelay :: "nat \<Rightarrow> kernel \<Rightarrow> kernel" where
  "udelay n s = emit (Udelay n) s"

definition mdelay :: "nat \<Rightarrow> kernel \<Rightarrow> kernel" where
  "mdelay n s = emit (Mdelay n) s"

text \<open>
  \<open>spin_lock\<close> returns once the lock is free. Nothing else runs in this model, so on a
  lock that is held it never returns: \<open>None\<close>.
\<close>

definition spin_lock :: "kernel \<Rightarrow> kernel option" where
  "spin_lock s = (if lock_held s then None else Some ((emit SpinLock s)\<lparr>lock_held := True\<rparr>))"

definition spin_unlock :: "kernel \<Rightarrow> kernel" where
  "spin_unlock s = (emit SpinUnlock s)\<lparr>lock_held := False\<rparr>"

definition spin_lock_init :: "kernel \<Rightarrow> kernel" where
  "spin_lock_init s = (emit SpinLockInit s)\<lparr>lock_init := True, lock_held := False\<rparr>"

definition register_chrdev :: "int \<Rightarrow> string \<Rightarrow> kernel \<Rightarrow> int \<times> kernel" where
  "register_chrdev major name s =
     (let s1 = emit (RegisterChrdev major name) s; r = chrdev_answer s1
      in if r < 0 then (r, s1) else (r, s1\<lparr>chrdevs := (chrdevs s1)(r \<mapsto> name)\<rparr>))"

definition unregister_chrdev :: "int \<Rightarrow> string \<Rightarrow> kernel \<Rightarrow> kernel" where
  "unregister_chrdev major name s =
     (emit (UnregisterChrdev major name) s)\<lparr>chrdevs := (chrdevs s)(major := None)\<rparr>"

definition class_create :: "string \<Rightarrow> kernel \<Rightarrow> ptr \<times> kernel" where
  "class_create name s =
     (let s1 = emit (ClassCreate name) s; p = class_answer s1
      in if IS_ERR p then (p, s1) else (p, s1\<lparr>classes := (classes s1)(p \<mapsto> None)\<rparr>))"

text \<open>\<open>class_destroy\<close> unregisters the class; it removes no device of the class.\<close>

definition class_destroy :: "ptr \<Rightarrow> kernel \<Rightarrow> kernel" where
  "class_destroy cls s = (emit (ClassDestroy cls) s)\<lparr>classes := (classes s)(cls := None)\<rparr>"

text \<open>
  The mode of the new node starts at 0 and is passed to the class's \<open>devnode\<close>
  callback, if there is one; a mode still 0 becomes 0600.
\<close>

definition device_create :: "ptr \<Rightarrow> 32 word \<Rightarrow> string \<Rightarrow> kernel \<Rightarrow> ptr \<times> kernel" where
  "device_create cls devt name s =
     (let s1 = emit (DeviceCreate cls devt name) s; p = device_answer s1;
          m = (case classes s1 cls of
                 Some (Some f) \<Rightarrow> (case fst (f (Some 0)) of Some m' \<Rightarrow> m' | None \<Rightarrow> 0)
               | _ \<Rightarrow> 0);
          mode = (if m = 0 then 384 else m)
      in if IS_ERR p then (p, s1)
         else (p, s1\<lparr>devnodes := (devnodes s1)(devt \<mapsto> (name, mode))\<rparr>))"

definition device_destroy :: "ptr \<Rightarrow> 32 word \<Rightarrow> kernel \<Rightarrow> kernel" where
  "device_destroy cls devt s =
     (emit (DeviceDestroy cls devt) s)\<lparr>devnodes := (devnodes s)(devt := None)\<rparr>"

subsection \<open>The driver\<close>

text \<open>The command table: eight bits each, most significant first.\<close>

definition reset :: "uint8 list" where "reset = [0,0,0,0,0,0,0,0]"
definition clear :: "uint8 list" where "clear = [0,0,0,0,0,0,0,1]"
definition home :: "uint8 list" where "home = [0,0,0,0,0,0,1,0]"
definition entry :: "uint8 list" where "entry = [0,0,0,0,0,1,1,0]"
definition displayon :: "uint8 list" where "displayon = [0,0,0,0,1,1,1,1]"
definition displayoff :: "uint8 list" where "displayoff = [0,0,0,0,1,0,0,0]"
definition functionset :: "uint8 list" where "functionset = [0,0,1,0,0,0,0,0]"
definition startup1 :: "uint8 list" where "startup1 = [0,0,1,1,0,0,1,1]"
definition startup2 :: "uint8 list" where "startup2 = [0,0,1,1,0,0,1,0]"
definition a :: "uint8 list" where "a = [0,1,0,1,0,0,0,1]"

definition lcd_ioctl :: "32 word \<Rightarrow> 32 word \<Rightarrow> kernel \<Rightarrow> int \<times> kernel" where
  "lcd_ioctl cmd arg s = (- EINVAL, s)"

definition lcd_open :: "kernel \<Rightarrow> int \<times> kernel" where
  "lcd_open s = (0, s)"

definition lcd_release :: "kernel \<Rightarrow> (int \<times> kernel) option" where
  "lcd_release s =
     (case spin_lock s of
        None \<Rightarrow> None
      | Some s1 \<Rightarrow>
          Some (0, run [gpio_free 4, gpio_free 17, gpio_free 18, gpio_free 22,
                        gpio_free 23, gpio_free 24, gpio_free 25, spin_unlock] s1))"

text \<open>
  \<open>lcd_devnode\<close>: \<open>mode\<close> is \<open>None\<close> for a null pointer, else the mode pointed to; the
  result is the mode afterwards and the returned name (\<open>NULL\<close>). 0666 is 438.
\<close>

definition lcd_devnode :: "nat option \<Rightarrow> nat option \<times> string option" where
  "lcd_devnode mode = (if mode \<noteq> None then Some 438 else mode, None)"

text \<open>
  \<open>lcd_write\<close> reads \<open>data[0]\<close> to \<open>data[7]\<close>. Every caller passes one of the ten tables
  above; a shorter array is undefined behaviour in C and unspecified here.
\<close>

definition lcd_write :: "uint8 list \<Rightarrow> kernel \<Rightarrow> int \<times> kernel" where
  "lcd_write data s =
     (0, run [gpio_set_value 25 (uint (data ! 0)),
              gpio_set_value 24 (uint (data ! 1)),
              gpio_set_value 23 (uint (data ! 2)),
              gpio_set_value 22 (uint (data ! 3)),
              gpio_set_value 18 1,
              udelay 50,
              gpio_set_value 18 0,
              udelay 50,
              gpio_set_value 25 (uint (data ! 4)),
              gpio_set_value 24 (uint (data ! 5)),
              gpio_set_value 23 (uint (data ! 6)),
              gpio_set_value 22 (uint (data ! 7)),
              gpio_set_value 18 1,
              udelay 50,
              gpio_set_value 18 0,
              udelay 50] s)"

definition lcd_init :: "kernel \<Rightarrow> (int \<times> kernel) option" where
  "lcd_init s =
     (case spin_lock s of
        None \<Rightarrow> None
      | Some s1 \<Rightarrow>
          Some (0, run [mdelay 15,
                        discard (lcd_write reset),
                        mdelay 35,
                        discard (lcd_write startup1),
                        discard (lcd_write startup2),
                        discard (lcd_write functionset),
                        discard (lcd_write displayoff),
                        discard (lcd_write clear),
                        discard (lcd_write entry),
                        discard (lcd_write displayon),
                        discard (lcd_write home),
                        gpio_set_value 4 1,
                        mdelay 35,
                        discard (lcd_write a),
                        mdelay 35,
                        gpio_set_value 4 0,
                        spin_unlock] s1))"

definition nl :: string where
  "nl = [CHR 0x0A]"

definition req_gpio :: "kernel \<Rightarrow> int \<times> kernel" where
  "req_gpio s0 =
     (case gpio_request 4 ''RS'' s0 of (r1, s1) \<Rightarrow>
      if r1 \<noteq> 0 then (-1, printk (''GPIO request failure: RS'' @ nl) s1) else
      case gpio_request 17 ''RW'' s1 of (r2, s2) \<Rightarrow>
      if r2 \<noteq> 0 then (-1, printk (''GPIO request failure: RW'' @ nl) s2) else
      case gpio_request 18 ''E'' s2 of (r3, s3) \<Rightarrow>
      if r3 \<noteq> 0 then (-1, printk (''GPIO request failure: E'' @ nl) s3) else
      case gpio_request 22 ''DB4'' s3 of (r4, s4) \<Rightarrow>
      if r4 \<noteq> 0 then (-1, printk (''GPIO request failure: DB4'' @ nl) s4) else
      case gpio_request 23 ''DB5'' s4 of (r5, s5) \<Rightarrow>
      if r5 \<noteq> 0 then (-1, printk (''GPIO request failure: DB5'' @ nl) s5) else
      case gpio_request 24 ''DB6'' s5 of (r6, s6) \<Rightarrow>
      if r6 \<noteq> 0 then (-1, printk (''GPIO request failure: DB6'' @ nl) s6) else
      case gpio_request 25 ''DB7'' s6 of (r7, s7) \<Rightarrow>
      if r7 \<noteq> 0 then (-1, printk (''GPIO request failure: DB7'' @ nl) s7) else
      (0, run [gpio_direction_output 4 0,
               gpio_direction_output 17 0,
               gpio_direction_output 18 0,
               gpio_direction_output 22 0,
               gpio_direction_output 23 0,
               gpio_direction_output 24 0,
               gpio_direction_output 25 0] s7))"

text \<open>
  Module init. After \<open>class_create\<close> succeeded, the assignment to
  \<open>lcd.lcd_class->devnode\<close> installs \<open>lcd_devnode\<close> in the class.
\<close>

definition rpigpio_lcd_minit :: "kernel \<Rightarrow> (int \<times> kernel) option" where
  "rpigpio_lcd_minit s0 =
     (let s1 = run [printk (''GPIO LCD Driver'' @ nl),
                    printk (''By: Tony Provencal'' @ nl)] s0
      in case register_chrdev 0 ''gpio_lcd'' s1 of (mjr, s2) \<Rightarrow>
      let s3 = s2\<lparr>lcd := (lcd s2)\<lparr>lcd_mjr := mjr\<rparr>\<rparr>
      in if mjr < 0 then Some (mjr, printk (''Cannot register char device'' @ nl) s3) else
      case class_create ''lcd_class'' s3 of (cls, s4) \<Rightarrow>
      let s5 = s4\<lparr>lcd := (lcd s4)\<lparr>lcd_class := cls\<rparr>\<rparr>
      in if IS_ERR cls then Some (PTR_ERR cls, unregister_chrdev mjr ''lcd_gpio'' s5) else
      let s6 = s5\<lparr>classes := (classes s5)(cls \<mapsto> Some lcd_devnode)\<rparr>
      in case device_create cls (MKDEV mjr 0) ''lcd'' s6 of (dev, s7) \<Rightarrow>
      if IS_ERR dev
      then Some (PTR_ERR dev, run [class_destroy cls, unregister_chrdev mjr ''lcd_gpio''] s7)
      else
      case req_gpio s7 of (r, s8) \<Rightarrow>
      if r < 0
      then Some (PTR_ERR dev, run [class_destroy cls, unregister_chrdev mjr ''lcd_gpio''] s8)
      else
      (case lcd_init s8 of
         None \<Rightarrow> None
       | Some (_, s9) \<Rightarrow> Some (0, spin_lock_init s9)))"

definition rpigpio_lcd_mcleanup :: "kernel \<Rightarrow> kernel" where
  "rpigpio_lcd_mcleanup s =
     run [discard (lcd_write clear),
          gpio_free 4, gpio_free 17, gpio_free 18, gpio_free 22,
          gpio_free 23, gpio_free 24, gpio_free 25,
          device_destroy (lcd_class (lcd s)) (MKDEV (lcd_mjr (lcd s)) 0),
          class_destroy (lcd_class (lcd s)),
          unregister_chrdev (lcd_mjr (lcd s)) ''lcd_gpio'',
          printk (''Goodbye'' @ nl)] s"

subsection \<open>Observing a run\<close>

text \<open>The calls made between two states of one run, oldest first.\<close>

definition calls :: "kernel \<Rightarrow> kernel \<Rightarrow> call list" where
  "calls s s' = drop (length (trace s)) (trace s')"

text \<open>RS, RW, E, DB4, DB5, DB6, DB7 in the order \<open>req_gpio\<close> requests them.\<close>

definition lcd_lines :: "nat list" where
  "lcd_lines = [4, 17, 18, 22, 23, 24, 25]"

text \<open>The line and value of a call that sets the level of a line.\<close>

fun line_write :: "call \<Rightarrow> (nat \<times> int) option" where
  "line_write (GpioSetValue n v) = Some (n, v)"
| "line_write (GpioDirectionOutput n v) = Some (n, v)"
| "line_write _ = None"

fun gpio_writes :: "call list \<Rightarrow> (nat \<times> int) list" where
  "gpio_writes [] = []"
| "gpio_writes (c # cs) =
     (case line_write c of Some w \<Rightarrow> w # gpio_writes cs | None \<Rightarrow> gpio_writes cs)"

text \<open>
  The display controller's side of the bus. \<open>drive\<close> is the effect of one call on the
  line levels; \<open>latched\<close> lists what the controller samples: on every falling edge of
  E (line 18) the level of RS (line 4) and the levels of DB7, DB6, DB5, DB4
  (lines 25, 24, 23, 22).
\<close>

definition drive :: "(nat \<Rightarrow> bool) \<Rightarrow> call \<Rightarrow> (nat \<Rightarrow> bool)" where
  "drive lv c = (case line_write c of Some (n, v) \<Rightarrow> lv(n := (v \<noteq> 0)) | None \<Rightarrow> lv)"

fun latched :: "(nat \<Rightarrow> bool) \<Rightarrow> call list \<Rightarrow> (bool \<times> bool list) list" where
  "latched lv [] = []"
| "latched lv (c # cs) =
     (if lv 18 \<and> \<not> drive lv c 18 then [(lv 4, [lv 25, lv 24, lv 23, lv 22])] else [])
     @ latched (drive lv c) cs"

text \<open>A table entry as the two samples its transmission should produce under RS = \<open>rs\<close>.\<close>

definition nibbles :: "bool \<Rightarrow> uint8 list \<Rightarrow> (bool \<times> bool list) list" where
  "nibbles rs w =
     [(rs, map (\<lambda>b. b \<noteq> 0) (take 4 w)), (rs, map (\<lambda>b. b \<noteq> 0) (drop 4 w))]"

text \<open>
  Time, in microseconds. \<open>udelay n\<close> and \<open>mdelay n\<close> busy-wait at least \<open>n\<close>
  microseconds and milliseconds; every other call is counted with its least possible
  duration, none. \<open>quiet cs\<close> is then a lower bound on the time from the start of \<open>cs\<close>
  to its first call that sets the level of a line, or to its end when it has none.
\<close>

fun elapsed :: "call \<Rightarrow> nat" where
  "elapsed (Udelay n) = n"
| "elapsed (Mdelay n) = 1000 * n"
| "elapsed _ = 0"

fun quiet :: "call list \<Rightarrow> nat" where
  "quiet [] = 0"
| "quiet (c # cs) = (if line_write c \<noteq> None then 0 else elapsed c + quiet cs)"

fun next_write :: "call list \<Rightarrow> (nat \<times> int) option" where
  "next_write [] = None"
| "next_write (c # cs) = (case line_write c of Some w \<Rightarrow> Some w | None \<Rightarrow> next_write cs)"

text \<open>
  Every write to E is followed by at least 50 microseconds without a write to any line,
  and the write that follows a raise of E is its lowering.
\<close>

fun e_timing_ok :: "call list \<Rightarrow> bool" where
  "e_timing_ok [] = True"
| "e_timing_ok (c # cs) =
     ((case line_write c of
         Some (n, v) \<Rightarrow>
           n = 18 \<longrightarrow> 50 \<le> quiet cs \<and> (v \<noteq> 0 \<longrightarrow> next_write cs = Some (18, 0))
       | None \<Rightarrow> True)
      \<and> e_timing_ok cs)"

text \<open>
  The sixteen calls of one \<open>lcd_write\<close> and the calls of one \<open>lcd_init\<close>, as lists, for
  comparison with the trace.
\<close>

definition lcd_write_calls :: "uint8 list \<Rightarrow> call list" where
  "lcd_write_calls data =
     [GpioSetValue 25 (uint (data ! 0)), GpioSetValue 24 (uint (data ! 1)),
      GpioSetValue 23 (uint (data ! 2)), GpioSetValue 22 (uint (data ! 3)),
      GpioSetValue 18 1, Udelay 50, GpioSetValue 18 0, Udelay 50,
      GpioSetValue 25 (uint (data ! 4)), GpioSetValue 24 (uint (data ! 5)),
      GpioSetValue 23 (uint (data ! 6)), GpioSetValue 22 (uint (data ! 7)),
      GpioSetValue 18 1, Udelay 50, GpioSetValue 18 0, Udelay 50]"

definition lcd_init_calls :: "call list" where
  "lcd_init_calls =
     [SpinLock, Mdelay 15] @ lcd_write_calls reset @ [Mdelay 35]
     @ lcd_write_calls startup1 @ lcd_write_calls startup2 @ lcd_write_calls functionset
     @ lcd_write_calls displayoff @ lcd_write_calls clear @ lcd_write_calls entry
     @ lcd_write_calls displayon @ lcd_write_calls home
     @ [GpioSetValue 4 1, Mdelay 35] @ lcd_write_calls a
     @ [Mdelay 35, GpioSetValue 4 0, SpinUnlock]"

text \<open>\<open>precedes x y cs\<close>: \<open>y\<close> occurs in \<open>cs\<close>, and \<open>x\<close> occurs before the first \<open>y\<close>.\<close>

definition precedes :: "'a \<Rightarrow> 'a \<Rightarrow> 'a list \<Rightarrow> bool" where
  "precedes x y cs = (y \<in> set cs \<and> x \<in> set (takeWhile (\<lambda>c. c \<noteq> y) cs))"

subsection \<open>Two hosts\<close>

text \<open>
  A freshly booted host on which every registration succeeds (major 250, two kernel
  addresses for the class and the device), and the same host with line 18 already
  claimed by another component.
\<close>

definition boot :: kernel where
  "boot = \<lparr>trace = [], gpio_label = Map.empty, gpio_output = (\<lambda>_. False),
           gpio_level = (\<lambda>_. False), chrdevs = Map.empty, classes = Map.empty,
           devnodes = Map.empty, lock_init = False, lock_held = False,
           lcd = \<lparr>lcd_mjr = 0, lcd_class = 0\<rparr>,
           chrdev_answer = 250, class_answer = 0xC1000000, device_answer = 0xC2000000\<rparr>"

definition boot_e_claimed :: kernel where
  "boot_e_claimed = boot\<lparr>gpio_label := [18 \<mapsto> ''other'']\<rparr>"

section \<open>Properties\<close>

subsection \<open>Shared lemmas\<close>

lemmas host_defs = emit_def run_def discard_def printk_def gpio_request_def gpio_free_def
  gpio_direction_output_def gpio_set_value_def udelay_def mdelay_def spin_lock_def
  spin_unlock_def spin_lock_init_def register_chrdev_def unregister_chrdev_def
  class_create_def class_destroy_def device_create_def device_destroy_def

lemma gpio_request_eq:
  "gpio_request n lbl s =
     (if gpio_label s n = None
      then (0, s\<lparr>trace := trace s @ [GpioRequest n lbl],
                 gpio_label := (gpio_label s)(n \<mapsto> lbl)\<rparr>)
      else (- 16, s\<lparr>trace := trace s @ [GpioRequest n lbl]\<rparr>))"
  by (simp add: gpio_request_def emit_def EBUSY_def)

text \<open>What \<open>req_gpio\<close> has done when it returns 0, and when it does.\<close>

lemma req_gpio_ok:
  assumes "req_gpio s = (0, s')"
  shows "s' = run [gpio_direction_output 4 0, gpio_direction_output 17 0,
                   gpio_direction_output 18 0, gpio_direction_output 22 0,
                   gpio_direction_output 23 0, gpio_direction_output 24 0,
                   gpio_direction_output 25 0]
                (s\<lparr>trace := trace s @ [GpioRequest 4 ''RS'', GpioRequest 17 ''RW'',
                       GpioRequest 18 ''E'', GpioRequest 22 ''DB4'', GpioRequest 23 ''DB5'',
                       GpioRequest 24 ''DB6'', GpioRequest 25 ''DB7''],
                    gpio_label := (gpio_label s)(4 \<mapsto> ''RS'', 17 \<mapsto> ''RW'', 18 \<mapsto> ''E'',
                       22 \<mapsto> ''DB4'', 23 \<mapsto> ''DB5'', 24 \<mapsto> ''DB6'', 25 \<mapsto> ''DB7'')\<rparr>)
         \<and> (\<forall>n \<in> set lcd_lines. gpio_label s n = None)"
  using assms
  by (simp add: req_gpio_def gpio_request_eq lcd_lines_def split: if_splits)

lemma req_gpio_free:
  assumes "\<forall>n \<in> set lcd_lines. gpio_label s n = None"
  shows "fst (req_gpio s) = 0"
  using assms by (simp add: req_gpio_def gpio_request_eq lcd_lines_def)

text \<open>
  \<open>lcd_write\<close> and \<open>lcd_init\<close> as one update of the state: the calls they append and
  the levels those calls leave on the lines.
\<close>

lemma lcd_write_eq:
  "snd (lcd_write data s) =
     s\<lparr>trace := trace s @ lcd_write_calls data,
       gpio_level := foldl drive (gpio_level s) (lcd_write_calls data)\<rparr>"
  by (simp add: lcd_write_def lcd_write_calls_def drive_def host_defs)

lemma calls_lcd_write: "calls s (snd (lcd_write data s)) = lcd_write_calls data"
  by (simp add: calls_def lcd_write_eq)

lemma lcd_init_eq:
  assumes "\<not> lock_held s"
  shows "lcd_init s =
           Some (0, s\<lparr>trace := trace s @ lcd_init_calls,
                      gpio_level := foldl drive (gpio_level s) lcd_init_calls,
                      lock_held := False\<rparr>)"
  using assms
  by (simp add: lcd_init_def spin_lock_def run_def discard_def lcd_write_eq
      lcd_init_calls_def drive_def emit_def mdelay_def gpio_set_value_def spin_unlock_def)

lemma latched_lcd_write_calls:
  "latched lv (lcd_write_calls [b0, b1, b2, b3, b4, b5, b6, b7]) =
     [(lv 4, [b0 \<noteq> 0, b1 \<noteq> 0, b2 \<noteq> 0, b3 \<noteq> 0]),
      (lv 4, [b4 \<noteq> 0, b5 \<noteq> 0, b6 \<noteq> 0, b7 \<noteq> 0])]"
  by (simp add: lcd_write_calls_def drive_def uint_0_iff)

lemmas table_defs = reset_def startup1_def startup2_def functionset_def displayoff_def
  clear_def entry_def displayon_def home_def a_def

lemma latched_lcd_init_calls:
  "latched lv lcd_init_calls =
     concat (map (nibbles (lv 4))
       [reset, startup1, startup2, functionset, displayoff, clear, entry, displayon, home])
     @ nibbles True a"
  by (simp add: lcd_init_calls_def lcd_write_calls_def drive_def nibbles_def table_defs)

lemma gpio_writes_append: "gpio_writes (xs @ ys) = gpio_writes xs @ gpio_writes ys"
  by (induction xs) (simp_all split: option.split)

lemma level_4_lcd_init_calls: "\<not> foldl drive lv lcd_init_calls 4"
  by (simp add: lcd_init_calls_def lcd_write_calls_def drive_def)

lemma e_timing_ok_lcd_write_calls: "e_timing_ok (lcd_write_calls data)"
  by (simp add: lcd_write_calls_def)

lemma e_timing_ok_lcd_init_calls: "e_timing_ok lcd_init_calls"
  by (simp add: lcd_init_calls_def lcd_write_calls_def)

text \<open>Module init on a host where every registration succeeds and the lines are free.\<close>

lemma minit_ok:
  assumes "0 \<le> chrdev_answer s" and "\<not> IS_ERR (class_answer s)"
    and "\<not> IS_ERR (device_answer s)"
    and "\<forall>n \<in> set lcd_lines. gpio_label s n = None" and "\<not> lock_held s"
  shows "\<exists>s'. rpigpio_lcd_minit s = Some (0, s') \<and>
           calls s s' =
             [Printk (''GPIO LCD Driver'' @ nl), Printk (''By: Tony Provencal'' @ nl),
              RegisterChrdev 0 ''gpio_lcd'', ClassCreate ''lcd_class'',
              DeviceCreate (class_answer s) (MKDEV (chrdev_answer s) 0) ''lcd'',
              GpioRequest 4 ''RS'', GpioRequest 17 ''RW'', GpioRequest 18 ''E'',
              GpioRequest 22 ''DB4'', GpioRequest 23 ''DB5'', GpioRequest 24 ''DB6'',
              GpioRequest 25 ''DB7'',
              GpioDirectionOutput 4 0, GpioDirectionOutput 17 0, GpioDirectionOutput 18 0,
              GpioDirectionOutput 22 0, GpioDirectionOutput 23 0, GpioDirectionOutput 24 0,
              GpioDirectionOutput 25 0]
             @ lcd_init_calls @ [SpinLockInit] \<and>
           devnodes s' (MKDEV (chrdev_answer s) 0) = Some (''lcd'', 438)"
  using assms
  by (simp add: rpigpio_lcd_minit_def req_gpio_def gpio_request_eq lcd_lines_def
      lcd_init_eq calls_def run_def printk_def emit_def register_chrdev_def
      class_create_def device_create_def gpio_direction_output_def spin_lock_init_def
      lcd_devnode_def Let_def)

subsection \<open>Line acquisition\<close>

text \<open>
  C1. The claim: when a request fails, \<open>req_gpio\<close> releases the lines it acquired
  before it returns its error. The code returns \<open>-1\<close> straight after the message.
  On the host where line 18 is already claimed, \<open>req_gpio\<close> returns \<open>-1\<close> having made
  three requests and no \<open>gpio_free\<close>, and lines 4 and 17 stay held under the driver's
  labels. Once the other component has freed line 18, a second \<open>req_gpio\<close> still
  fails, now at line 4, on the driver's own leftover.
\<close>

theorem req_gpio_failure_keeps_lines:
  "fst (req_gpio boot_e_claimed) = - 1 \<and>
   calls boot_e_claimed (snd (req_gpio boot_e_claimed)) =
     [GpioRequest 4 ''RS'', GpioRequest 17 ''RW'', GpioRequest 18 ''E'',
      Printk (''GPIO request failure: E'' @ nl)] \<and>
   gpio_label (snd (req_gpio boot_e_claimed)) 4 = Some ''RS'' \<and>
   gpio_label (snd (req_gpio boot_e_claimed)) 17 = Some ''RW'' \<and>
   fst (req_gpio (gpio_free 18 (snd (req_gpio boot_e_claimed)))) = - 1"
  by (simp add: req_gpio_def gpio_request_eq boot_e_claimed_def boot_def calls_def
      printk_def gpio_free_def emit_def)

text \<open>
  C9. When \<open>req_gpio\<close> returns 0, each of the seven lines is held, is an output at
  level 0, and \<open>gpio_direction_output\<close> was called on it with value 0 during the call.
\<close>

theorem req_gpio_configures_outputs:
  assumes "req_gpio s = (0, s')"
  shows "\<forall>n \<in> set lcd_lines.
           gpio_label s' n \<noteq> None \<and> gpio_output s' n \<and> \<not> gpio_level s' n \<and>
           GpioDirectionOutput n 0 \<in> set (calls s s')"
  using req_gpio_ok [OF assms]
  by (simp add: lcd_lines_def calls_def run_def gpio_direction_output_def emit_def)

theorem req_gpio_configures_outputs_witness:
  "req_gpio boot = (0, snd (req_gpio boot)) \<and>
   gpio_label (snd (req_gpio boot)) 4 \<noteq> None \<and> gpio_output (snd (req_gpio boot)) 4 \<and>
   \<not> gpio_level (snd (req_gpio boot)) 4 \<and>
   GpioDirectionOutput 4 0 \<in> set (calls boot (snd (req_gpio boot))) \<and>
   gpio_label (snd (req_gpio boot)) 17 \<noteq> None \<and> gpio_output (snd (req_gpio boot)) 17 \<and>
   \<not> gpio_level (snd (req_gpio boot)) 17 \<and>
   GpioDirectionOutput 17 0 \<in> set (calls boot (snd (req_gpio boot))) \<and>
   gpio_label (snd (req_gpio boot)) 18 \<noteq> None \<and> gpio_output (snd (req_gpio boot)) 18 \<and>
   \<not> gpio_level (snd (req_gpio boot)) 18 \<and>
   GpioDirectionOutput 18 0 \<in> set (calls boot (snd (req_gpio boot))) \<and>
   gpio_label (snd (req_gpio boot)) 22 \<noteq> None \<and> gpio_output (snd (req_gpio boot)) 22 \<and>
   \<not> gpio_level (snd (req_gpio boot)) 22 \<and>
   GpioDirectionOutput 22 0 \<in> set (calls boot (snd (req_gpio boot))) \<and>
   gpio_label (snd (req_gpio boot)) 23 \<noteq> None \<and> gpio_output (snd (req_gpio boot)) 23 \<and>
   \<not> gpio_level (snd (req_gpio boot)) 23 \<and>
   GpioDirectionOutput 23 0 \<in> set (calls boot (snd (req_gpio boot))) \<and>
   gpio_label (snd (req_gpio boot)) 24 \<noteq> None \<and> gpio_output (snd (req_gpio boot)) 24 \<and>
   \<not> gpio_level (snd (req_gpio boot)) 24 \<and>
   GpioDirectionOutput 24 0 \<in> set (calls boot (snd (req_gpio boot))) \<and>
   gpio_label (snd (req_gpio boot)) 25 \<noteq> None \<and> gpio_output (snd (req_gpio boot)) 25 \<and>
   \<not> gpio_level (snd (req_gpio boot)) 25 \<and>
   GpioDirectionOutput 25 0 \<in> set (calls boot (snd (req_gpio boot)))"
proof -
  have "\<forall>n \<in> set lcd_lines. gpio_label boot n = None"
    by (simp add: boot_def)
  then have "fst (req_gpio boot) = 0"
    by (rule req_gpio_free)
  then have h: "req_gpio boot = (0, snd (req_gpio boot))"
    by (simp add: prod_eq_iff)
  from h req_gpio_configures_outputs [OF h] show ?thesis
    by (simp add: lcd_lines_def)
qed

subsection \<open>Module init\<close>

text \<open>
  C2. The claim: when line acquisition fails, module init has undone every
  registration, the device node included, before it returns its error. The failure
  branch calls \<open>class_destroy\<close> and \<open>unregister_chrdev\<close> only. On the host where
  line 18 is already claimed, init returns \<open>PTR_ERR(dev)\<close> of the valid device pointer,
  its calls hold \<open>device_create\<close> and no \<open>device_destroy\<close>, and the node lcd with
  mode 0666 is still there.
\<close>

theorem minit_failure_leaves_device_node:
  "\<exists>s'. rpigpio_lcd_minit boot_e_claimed = Some (sint (0xC2000000 :: 32 word), s') \<and>
        calls boot_e_claimed s' =
          [Printk (''GPIO LCD Driver'' @ nl), Printk (''By: Tony Provencal'' @ nl),
           RegisterChrdev 0 ''gpio_lcd'', ClassCreate ''lcd_class'',
           DeviceCreate 0xC1000000 (MKDEV 250 0) ''lcd'',
           GpioRequest 4 ''RS'', GpioRequest 17 ''RW'', GpioRequest 18 ''E'',
           Printk (''GPIO request failure: E'' @ nl),
           ClassDestroy 0xC1000000, UnregisterChrdev 250 ''lcd_gpio''] \<and>
        devnodes s' (MKDEV 250 0) = Some (''lcd'', 438) \<and>
        classes s' 0xC1000000 = None \<and> chrdevs s' 250 = None"
  by (simp add: rpigpio_lcd_minit_def req_gpio_def gpio_request_eq boot_e_claimed_def
      boot_def calls_def run_def printk_def emit_def register_chrdev_def class_create_def
      device_create_def class_destroy_def unregister_chrdev_def IS_ERR_def PTR_ERR_def
      MAX_ERRNO_def lcd_devnode_def)

text \<open>
  C10. On a host where every registration succeeds, the seven lines are free and the
  lock is free, module init returns 0, and among its calls \<open>spin_lock\<close> and
  \<open>spin_unlock\<close> (those of \<open>lcd_init\<close>) and \<open>device_create\<close> all come before
  \<open>spin_lock_init\<close>, which is called once.
\<close>

theorem lock_taken_before_lock_init:
  assumes "0 \<le> chrdev_answer s" and "\<not> IS_ERR (class_answer s)"
    and "\<not> IS_ERR (device_answer s)"
    and "\<forall>n \<in> set lcd_lines. gpio_label s n = None" and "\<not> lock_held s"
  shows "\<exists>s'. rpigpio_lcd_minit s = Some (0, s') \<and>
           precedes SpinLock SpinLockInit (calls s s') \<and>
           precedes SpinUnlock SpinLockInit (calls s s') \<and>
           precedes (DeviceCreate (class_answer s) (MKDEV (chrdev_answer s) 0) ''lcd'')
             SpinLockInit (calls s s') \<and>
           count_list (calls s s') SpinLockInit = 1"
proof -
  from minit_ok [OF assms] obtain s' where
    r: "rpigpio_lcd_minit s = Some (0, s')" and
    c: "calls s s' =
             [Printk (''GPIO LCD Driver'' @ nl), Printk (''By: Tony Provencal'' @ nl),
              RegisterChrdev 0 ''gpio_lcd'', ClassCreate ''lcd_class'',
              DeviceCreate (class_answer s) (MKDEV (chrdev_answer s) 0) ''lcd'',
              GpioRequest 4 ''RS'', GpioRequest 17 ''RW'', GpioRequest 18 ''E'',
              GpioRequest 22 ''DB4'', GpioRequest 23 ''DB5'', GpioRequest 24 ''DB6'',
              GpioRequest 25 ''DB7'',
              GpioDirectionOutput 4 0, GpioDirectionOutput 17 0, GpioDirectionOutput 18 0,
              GpioDirectionOutput 22 0, GpioDirectionOutput 23 0, GpioDirectionOutput 24 0,
              GpioDirectionOutput 25 0]
             @ lcd_init_calls @ [SpinLockInit]"
    by blast
  have "precedes SpinLock SpinLockInit (calls s s')"
    unfolding c by (simp add: precedes_def lcd_init_calls_def lcd_write_calls_def)
  moreover have "precedes SpinUnlock SpinLockInit (calls s s')"
    unfolding c by (simp add: precedes_def lcd_init_calls_def lcd_write_calls_def)
  moreover have "precedes (DeviceCreate (class_answer s) (MKDEV (chrdev_answer s) 0) ''lcd'')
             SpinLockInit (calls s s')"
    unfolding c by (simp add: precedes_def)
  moreover have "count_list (calls s s') SpinLockInit = 1"
    unfolding c by (simp add: lcd_init_calls_def lcd_write_calls_def)
  ultimately show ?thesis using r by blast
qed

theorem lock_taken_before_lock_init_witness:
  "0 \<le> chrdev_answer boot \<and> \<not> IS_ERR (class_answer boot) \<and>
   \<not> IS_ERR (device_answer boot) \<and>
   gpio_label boot 4 = None \<and> gpio_label boot 17 = None \<and> gpio_label boot 18 = None \<and>
   gpio_label boot 22 = None \<and> gpio_label boot 23 = None \<and> gpio_label boot 24 = None \<and>
   gpio_label boot 25 = None \<and> \<not> lock_held boot \<and>
   (\<exists>s'. rpigpio_lcd_minit boot = Some (0, s') \<and>
         precedes SpinLock SpinLockInit (calls boot s') \<and>
         precedes SpinUnlock SpinLockInit (calls boot s') \<and>
         precedes (DeviceCreate 0xC1000000 (MKDEV 250 0) ''lcd'')
           SpinLockInit (calls boot s') \<and>
         count_list (calls boot s') SpinLockInit = 1)"
proof -
  have h: "0 \<le> chrdev_answer boot" "\<not> IS_ERR (class_answer boot)"
    "\<not> IS_ERR (device_answer boot)" "\<forall>n \<in> set lcd_lines. gpio_label boot n = None"
    "\<not> lock_held boot"
    by (simp_all add: boot_def IS_ERR_def MAX_ERRNO_def)
  have v: "class_answer boot = 0xC1000000" "chrdev_answer boot = 250"
    by (simp_all add: boot_def)
  from lock_taken_before_lock_init [OF h] h show ?thesis
    unfolding v by (simp add: lcd_lines_def)
qed

subsection \<open>The initialisation sequence\<close>

text \<open>
  C3. With the lock free, \<open>lcd_init\<close> returns 0. What the controller samples during
  the call is, in this order, the two nibbles of reset, startup1, startup2,
  functionset, displayoff, clear, entry, displayon and home, each under the RS level
  the call started with (0 after \<open>req_gpio\<close>), then the two nibbles of \<open>a\<close> under
  RS = 1, and nothing else. The writes to the lines are those of the nine
  \<open>lcd_write\<close> calls, the raise of RS, those of \<open>lcd_write a\<close> and the lowering of RS,
  and RS is at 0 on return.
\<close>

theorem lcd_init_sequence:
  assumes "\<not> lock_held s"
  shows "\<exists>s'. lcd_init s = Some (0, s') \<and>
           latched (gpio_level s) (calls s s') =
             concat (map (nibbles (gpio_level s 4))
               [reset, startup1, startup2, functionset, displayoff, clear, entry,
                displayon, home])
             @ nibbles True a \<and>
           gpio_writes (calls s s') =
             concat (map (\<lambda>w. gpio_writes (lcd_write_calls w))
               [reset, startup1, startup2, functionset, displayoff, clear, entry,
                displayon, home])
             @ [(4, 1)] @ gpio_writes (lcd_write_calls a) @ [(4, 0)] \<and>
           \<not> gpio_level s' 4"
proof -
  let ?s' = "s\<lparr>trace := trace s @ lcd_init_calls,
               gpio_level := foldl drive (gpio_level s) lcd_init_calls,
               lock_held := False\<rparr>"
  have run: "lcd_init s = Some (0, ?s')"
    using assms by (rule lcd_init_eq)
  have cs: "calls s ?s' = lcd_init_calls"
    by (simp add: calls_def)
  have "gpio_writes lcd_init_calls =
          concat (map (\<lambda>w. gpio_writes (lcd_write_calls w))
            [reset, startup1, startup2, functionset, displayoff, clear, entry,
             displayon, home])
          @ [(4, 1)] @ gpio_writes (lcd_write_calls a) @ [(4, 0)]"
    by (simp add: lcd_init_calls_def gpio_writes_append)
  with run cs show ?thesis
    by (simp add: latched_lcd_init_calls level_4_lcd_init_calls)
qed

theorem lcd_init_sequence_witness:
  "\<not> lock_held boot \<and>
   (\<exists>s'. lcd_init boot = Some (0, s') \<and>
         latched (gpio_level boot) (calls boot s') =
           [(False, [False, False, False, False]), (False, [False, False, False, False]),
            (False, [False, False, True, True]), (False, [False, False, True, True]),
            (False, [False, False, True, True]), (False, [False, False, True, False]),
            (False, [False, False, True, False]), (False, [False, False, False, False]),
            (False, [False, False, False, False]), (False, [True, False, False, False]),
            (False, [False, False, False, False]), (False, [False, False, False, True]),
            (False, [False, False, False, False]), (False, [False, True, True, False]),
            (False, [False, False, False, False]), (False, [True, True, True, True]),
            (False, [False, False, False, False]), (False, [False, False, True, False]),
            (True, [False, True, False, True]), (True, [False, False, False, True])] \<and>
         \<not> gpio_level s' 4)"
proof -
  have h: "\<not> lock_held boot"
    by (simp add: boot_def)
  have lv: "gpio_level boot 4 = False"
    by (simp add: boot_def)
  from lcd_init_sequence [OF h] h show ?thesis
    unfolding lv by (auto simp add: nibbles_def table_defs)
qed

subsection \<open>Transmitting one word\<close>

text \<open>
  C4. For a word of eight entries \<open>b0\<close> to \<open>b7\<close>, \<open>lcd_write\<close> returns 0 and writes,
  in this order: \<open>b0\<close>, \<open>b1\<close>, \<open>b2\<close>, \<open>b3\<close> to DB7, DB6, DB5, DB4 (lines 25, 24, 23,
  22), 1 then 0 to E (line 18), \<open>b4\<close> to \<open>b7\<close> to DB7 to DB4, 1 then 0 to E. The
  controller samples two nibbles, \<open>b0..b3\<close> first and \<open>b4..b7\<close> second, a nonzero
  entry as a high level.
\<close>

theorem lcd_write_nibble_order:
  "fst (lcd_write [b0, b1, b2, b3, b4, b5, b6, b7] s) = 0 \<and>
   gpio_writes (calls s (snd (lcd_write [b0, b1, b2, b3, b4, b5, b6, b7] s))) =
     [(25, uint b0), (24, uint b1), (23, uint b2), (22, uint b3), (18, 1), (18, 0),
      (25, uint b4), (24, uint b5), (23, uint b6), (22, uint b7), (18, 1), (18, 0)] \<and>
   latched (gpio_level s) (calls s (snd (lcd_write [b0, b1, b2, b3, b4, b5, b6, b7] s))) =
     [(gpio_level s 4, [b0 \<noteq> 0, b1 \<noteq> 0, b2 \<noteq> 0, b3 \<noteq> 0]),
      (gpio_level s 4, [b4 \<noteq> 0, b5 \<noteq> 0, b6 \<noteq> 0, b7 \<noteq> 0])]"
proof -
  have "fst (lcd_write [b0, b1, b2, b3, b4, b5, b6, b7] s) = 0"
    by (simp add: lcd_write_def)
  moreover have "gpio_writes (lcd_write_calls [b0, b1, b2, b3, b4, b5, b6, b7]) =
     [(25, uint b0), (24, uint b1), (23, uint b2), (22, uint b3), (18, 1), (18, 0),
      (25, uint b4), (24, uint b5), (23, uint b6), (22, uint b7), (18, 1), (18, 0)]"
    by (simp add: lcd_write_calls_def)
  ultimately show ?thesis
    by (simp add: calls_lcd_write latched_lcd_write_calls)
qed

text \<open>
  C5. In the calls of one \<open>lcd_write\<close>, E is raised twice; every write to E is
  followed by at least 50 microseconds before the next write to any line or the return,
  and the write after each raise of E is its lowering. The same holds over the whole of
  \<open>lcd_init\<close>.
\<close>

theorem lcd_write_pulse_width:
  "e_timing_ok (calls s (snd (lcd_write [b0, b1, b2, b3, b4, b5, b6, b7] s))) \<and>
   count_list (calls s (snd (lcd_write [b0, b1, b2, b3, b4, b5, b6, b7] s)))
     (GpioSetValue 18 1) = 2 \<and>
   (\<not> lock_held s \<longrightarrow> (\<exists>s'. lcd_init s = Some (0, s') \<and> e_timing_ok (calls s s')))"
proof -
  have "count_list (lcd_write_calls [b0, b1, b2, b3, b4, b5, b6, b7]) (GpioSetValue 18 1) = 2"
    by (simp add: lcd_write_calls_def)
  moreover have "\<exists>s'. lcd_init s = Some (0, s') \<and> e_timing_ok (calls s s')"
    if "\<not> lock_held s"
    using lcd_init_eq [OF that] by (simp add: calls_def e_timing_ok_lcd_init_calls)
  ultimately show ?thesis
    by (simp add: calls_lcd_write e_timing_ok_lcd_write_calls)
qed

theorem lcd_write_pulse_width_witness:
  "\<not> lock_held boot \<and>
   e_timing_ok (calls boot (snd (lcd_write a boot))) \<and>
   count_list (calls boot (snd (lcd_write a boot))) (GpioSetValue 18 1) = 2 \<and>
   (\<exists>s'. lcd_init boot = Some (0, s') \<and> e_timing_ok (calls boot s'))"
proof -
  have h: "\<not> lock_held boot"
    by (simp add: boot_def)
  from lcd_write_pulse_width [of boot 0 1 0 1 0 0 0 1] h show ?thesis
    by (simp add: a_def)
qed

text \<open>
  C8. The lines \<open>lcd_write\<close> writes are exactly 18, 22, 23, 24 and 25. The levels of
  RS (line 4) and RW (line 17), and of every line other than those five, are on return
  what they were at the call; no line changes holder or direction.
\<close>

theorem lcd_write_frame:
  "fst ` set (gpio_writes (calls s (snd (lcd_write [b0, b1, b2, b3, b4, b5, b6, b7] s)))) =
     {18, 22, 23, 24, 25} \<and>
   gpio_level (snd (lcd_write [b0, b1, b2, b3, b4, b5, b6, b7] s)) 4 = gpio_level s 4 \<and>
   gpio_level (snd (lcd_write [b0, b1, b2, b3, b4, b5, b6, b7] s)) 17 = gpio_level s 17 \<and>
   (\<forall>n. n \<notin> {18, 22, 23, 24, 25} \<longrightarrow>
        gpio_level (snd (lcd_write [b0, b1, b2, b3, b4, b5, b6, b7] s)) n = gpio_level s n) \<and>
   gpio_label (snd (lcd_write [b0, b1, b2, b3, b4, b5, b6, b7] s)) = gpio_label s \<and>
   gpio_output (snd (lcd_write [b0, b1, b2, b3, b4, b5, b6, b7] s)) = gpio_output s"
proof -
  have "fst ` set (gpio_writes (lcd_write_calls [b0, b1, b2, b3, b4, b5, b6, b7])) =
          {18, 22, 23, 24, 25}"
    by (auto simp add: lcd_write_calls_def)
  moreover have "foldl drive lv (lcd_write_calls [b0, b1, b2, b3, b4, b5, b6, b7]) n = lv n"
    if "n \<notin> {18, 22, 23, 24, 25}" for lv n
    using that by (simp add: lcd_write_calls_def drive_def)
  ultimately show ?thesis
    unfolding calls_lcd_write by (simp add: lcd_write_eq)
qed

theorem lcd_write_frame_witness:
  "(7 :: nat) \<notin> {18, 22, 23, 24, 25} \<and>
   fst ` set (gpio_writes (calls boot (snd (lcd_write a boot)))) = {18, 22, 23, 24, 25} \<and>
   gpio_level (snd (lcd_write a boot)) 4 = gpio_level boot 4 \<and>
   gpio_level (snd (lcd_write a boot)) 17 = gpio_level boot 17 \<and>
   gpio_level (snd (lcd_write a boot)) 7 = gpio_level boot 7"
  using lcd_write_frame [of boot 0 1 0 1 0 0 0 1] by (simp add: a_def)

subsection \<open>The file operations\<close>

text \<open>
  C6. \<open>lcd_open\<close> returns 0 and leaves the host as it was: it makes no call. With the
  lock free, \<open>lcd_release\<close> returns 0 having called \<open>spin_lock\<close>, \<open>gpio_free\<close> on lines
  4, 17, 18, 22, 23, 24 and 25, and \<open>spin_unlock\<close>, in this order; none of the seven
  lines has a holder afterwards.
\<close>

theorem lcd_open_release:
  "lcd_open s = (0, s) \<and> calls s (snd (lcd_open s)) = [] \<and>
   (\<not> lock_held s \<longrightarrow>
     (\<exists>s'. lcd_release s = Some (0, s') \<and>
           calls s s' = [SpinLock, GpioFree 4, GpioFree 17, GpioFree 18, GpioFree 22,
                         GpioFree 23, GpioFree 24, GpioFree 25, SpinUnlock] \<and>
           (\<forall>n \<in> set lcd_lines. gpio_label s' n = None)))"
  by (simp add: lcd_open_def lcd_release_def calls_def lcd_lines_def spin_lock_def
      spin_unlock_def gpio_free_def run_def emit_def)

theorem lcd_open_release_witness:
  "\<not> lock_held (snd (req_gpio boot)) \<and>
   gpio_label (snd (req_gpio boot)) 18 = Some ''E'' \<and>
   lcd_open (snd (req_gpio boot)) = (0, snd (req_gpio boot)) \<and>
   calls (snd (req_gpio boot)) (snd (lcd_open (snd (req_gpio boot)))) = [] \<and>
   (\<exists>s'. lcd_release (snd (req_gpio boot)) = Some (0, s') \<and>
         calls (snd (req_gpio boot)) s' =
           [SpinLock, GpioFree 4, GpioFree 17, GpioFree 18, GpioFree 22,
            GpioFree 23, GpioFree 24, GpioFree 25, SpinUnlock] \<and>
         gpio_label s' 4 = None \<and> gpio_label s' 17 = None \<and> gpio_label s' 18 = None \<and>
         gpio_label s' 22 = None \<and> gpio_label s' 23 = None \<and> gpio_label s' 24 = None \<and>
         gpio_label s' 25 = None)"
proof -
  have "\<forall>n \<in> set lcd_lines. gpio_label boot n = None"
    by (simp add: boot_def)
  then have "fst (req_gpio boot) = 0"
    by (rule req_gpio_free)
  then have "req_gpio boot = (0, snd (req_gpio boot))"
    by (simp add: prod_eq_iff)
  from req_gpio_ok [OF this]
  have h: "\<not> lock_held (snd (req_gpio boot))"
    and e: "gpio_label (snd (req_gpio boot)) 18 = Some ''E''"
    by (simp_all add: run_def gpio_direction_output_def emit_def boot_def)
  from lcd_open_release [of "snd (req_gpio boot)"] h e show ?thesis
    by (simp add: lcd_lines_def calls_def)
qed

text \<open>
  C7. For every command, every argument and every state of the host, \<open>lcd_ioctl\<close>
  returns \<open>-EINVAL\<close> (\<open>-22\<close>) and leaves the host as it was.
\<close>

theorem lcd_ioctl_einval:
  "lcd_ioctl cmd arg s = (- 22, s)"
  by (simp add: lcd_ioctl_def EINVAL_def)

end
